theory Spec2Isabelle
  imports Main "HOL-Library.Word"
begin

unbundle bit_operations_syntax

section \<open>Data model of LAVFUtils.cpp\<close>

text \<open>
  The file under verification is \<^verbatim>\<open>demuxer/Demuxers/LAVFUtils.cpp\<close>. It builds the
  one-line description of an elementary stream and implements the \<^verbatim>\<open>ufile:\<close> URL
  protocol. Everything it calls in libavcodec, libavformat, the C runtime and Win32
  lies outside the file; those collaborators are gathered in the record \<open>libs\<close> below
  and every function of the file takes that record as its first argument.

  Conventions of the embedding:
  \<^item> a C \<^verbatim>\<open>int\<close> that the file multiplies is a \<open>32 word\<close> (read with \<open>sint\<close>), so
    that the product wraps as the compiled code does; an \<^verbatim>\<open>int\<close> that is only
    compared and printed is an \<open>int\<close>;
  \<^item> a pointer that may be \<^verbatim>\<open>NULL\<close> is an \<open>option\<close>;
  \<^item> a run that dereferences \<^verbatim>\<open>NULL\<close>, or that the C runtime aborts, is the value
    \<open>Inl f\<close> of the result type \<open>fault + 'a\<close>.
\<close>

datatype fault =
    NullPointerRead       \<comment> \<open>a \<^verbatim>\<open>NULL\<close> pointer is dereferenced\<close>
  | InvalidParameter      \<comment> \<open>the CRT's invalid-parameter handler is invoked (\<^verbatim>\<open>sprintf_s\<close> overflow)\<close>

datatype AVMediaType =
    AVMEDIA_TYPE_UNKNOWN
  | AVMEDIA_TYPE_VIDEO
  | AVMEDIA_TYPE_AUDIO
  | AVMEDIA_TYPE_DATA
  | AVMEDIA_TYPE_SUBTITLE
  | AVMEDIA_TYPE_ATTACHMENT
  | AVMEDIA_TYPE_NB

text \<open>
  \<^verbatim>\<open>enum CodecID\<close> belongs to libavcodec. The enumerators that the file names are
  constructors; \<open>CODEC_ID_OTHER n\<close> stands for any other value \<open>n\<close> of the enumeration.
\<close>

datatype CodecID =
    CODEC_ID_VC1
  | CODEC_ID_MPEG2VIDEO
  | CODEC_ID_TRUEHD
  | CODEC_ID_AC3
  | CODEC_ID_EAC3
  | CODEC_ID_AAC_LATM
  | CODEC_ID_TEXT
  | CODEC_ID_SRT
  | CODEC_ID_HDMV_PGS_SUBTITLE
  | CODEC_ID_DVD_SUBTITLE
  | CODEC_ID_DVB_SUBTITLE
  | CODEC_ID_SSA
  | CODEC_ID_XSUB
  | CODEC_ID_H264
  | CODEC_ID_DTS
  | CODEC_ID_MLP
  | CODEC_ID_FLAC
  | CODEC_ID_WMALOSSLESS
  | CODEC_ID_WAVPACK
  | CODEC_ID_MP4ALS
  | CODEC_ID_ALAC
  | CODEC_ID_OTHER int

datatype AVSampleFormat =
    AV_SAMPLE_FMT_NONE
  | AV_SAMPLE_FMT_U8
  | AV_SAMPLE_FMT_S16
  | AV_SAMPLE_FMT_S32
  | AV_SAMPLE_FMT_FLT
  | AV_SAMPLE_FMT_DBL

record AVCodec =
  name :: string

record AVCodecContext =
  codec_type :: AVMediaType
  codec_id :: CodecID
  opaque :: "CodecID option"        \<comment> \<open>read as \<^verbatim>\<open>*(CodecID *)opaque\<close> for subtitles\<close>
  bit_rate :: "32 word"
  sample_rate :: "32 word"
  channels :: "32 word"
  channel_layout :: "64 word"
  sample_fmt :: AVSampleFormat
  profile :: int
  level :: int
  codec_name :: string              \<comment> \<open>\<^verbatim>\<open>char codec_name[32]\<close>, up to its terminator\<close>
  codec_tag :: "32 word"
  pix_fmt :: int
  width :: int
  height :: int

text \<open>
  \<^verbatim>\<open>AVStream\<close>. \<open>metadata s key\<close> is the value of the entry that
  \<^verbatim>\<open>av_metadata_get(s->metadata, key, NULL, 0)\<close> returns, \<open>None\<close> when it returns
  \<^verbatim>\<open>NULL\<close>. \<open>language s\<close> is the stream-level language string, which the file
  tests against \<^verbatim>\<open>NULL\<close> before it reads it.
\<close>

record AVStream =
  index :: int
  codec :: AVCodecContext
  metadata :: "string \<Rightarrow> string option"
  language :: "string option"
  disposition :: "32 word"

text \<open>
  \<^verbatim>\<open>struct s_codec_names\<close>. Its \<^verbatim>\<open>name\<close> is a pointer: \<open>Some s\<close> points to the string
  \<open>s\<close>, \<open>None\<close> is \<^verbatim>\<open>NULL\<close>.
\<close>

record s_codec_names =
  id_entry :: CodecID
  name_entry :: "string option"

text \<open>
  \<^verbatim>\<open>URLContext\<close>: the file reads and writes only \<^verbatim>\<open>priv_data\<close>, which holds the file
  descriptor.
\<close>

record URLContext =
  priv_data :: int

text \<open>
  The state of the C runtime that the \<^verbatim>\<open>ufile\<close> functions act on: the table of open
  descriptors, each with the bytes of its file and its position, and \<^verbatim>\<open>errno\<close>.
\<close>

record host_file =
  contents :: "8 word list"
  file_pos :: int

record host =
  open_files :: "int \<Rightarrow> host_file option"
  errno :: int

text \<open>
  The collaborators outside the file.
  \<^item> \<open>MultiByteToWideChar flags src n\<close> is the Win32 call on the code page
    \<^verbatim>\<open>CP_UTF8\<close>, the terminated string \<open>src\<close> and a destination of \<open>n\<close> wide
    characters: the value it returns and the wide string it leaves in the destination.
  \<^item> \<open>CoTaskMemAlloc n\<close> tells whether the allocation of \<open>n\<close> bytes succeeds.
  \<^item> \<open>sizeof_s_codec_names\<close> is the size in bytes of one table entry (8 on a 32-bit
    build, 16 on a 64-bit one), and \<open>after_nice_codec_names k\<close> is what the memory that
    follows the table holds when it is read as entry \<open>13 + k\<close> of the table.
  \<^item> \<open>wsopen_s x path access shflag pmode\<close> is \<^verbatim>\<open>_wsopen_s\<close>: the runtime state after the
    call and the descriptor it stores, \<open>- 1\<close> when it fails.
  \<^item> \<open>URL_WRONLY\<close> and \<open>URL_RDWR\<close> are the flag values of libavformat's
    \<^verbatim>\<open>avio.h\<close>; \<open>O_BINARY\<close> is the value of the macro of that name when
    \<^verbatim>\<open>fcntl.h\<close> defines it.
\<close>

record libs =
  avcodec_find_decoder :: "CodecID \<Rightarrow> AVCodec option"
  av_get_profile_name :: "AVCodec \<Rightarrow> int \<Rightarrow> string option"
  av_get_bits_per_sample :: "CodecID \<Rightarrow> 32 word"
  av_get_codec_tag_string :: "32 word \<Rightarrow> string"
  ProbeLangForLanguage :: "string \<Rightarrow> string"
  avcodec_get_pix_fmt_name :: "int \<Rightarrow> string option"
  av_get_channel_layout_string :: "32 word \<Rightarrow> 64 word \<Rightarrow> string"
  get_bits_per_sample :: "AVCodecContext \<Rightarrow> int"
  codec_id_value :: "CodecID \<Rightarrow> int"
  CoTaskMemAlloc :: "nat \<Rightarrow> bool"
  MultiByteToWideChar :: "32 word \<Rightarrow> string \<Rightarrow> nat \<Rightarrow> int \<times> 16 word list"
  sizeof_s_codec_names :: nat
  after_nice_codec_names :: "nat \<Rightarrow> s_codec_names"
  wsopen_s :: "host \<Rightarrow> 16 word list \<Rightarrow> 32 word \<Rightarrow> 32 word \<Rightarrow> 32 word \<Rightarrow> host \<times> int"
  URL_WRONLY :: "32 word"
  URL_RDWR :: "32 word"
  O_BINARY :: "32 word option"

section \<open>Bit rate\<close>

text \<open>\<^verbatim>\<open>get_bit_rate\<close>, lines 36-57.\<close>

definition get_bit_rate :: "libs \<Rightarrow> AVCodecContext \<Rightarrow> 32 word" where
  "get_bit_rate L ctx =
     (case codec_type ctx of
        AVMEDIA_TYPE_VIDEO \<Rightarrow> bit_rate ctx
      | AVMEDIA_TYPE_DATA \<Rightarrow> bit_rate ctx
      | AVMEDIA_TYPE_SUBTITLE \<Rightarrow> bit_rate ctx
      | AVMEDIA_TYPE_ATTACHMENT \<Rightarrow> bit_rate ctx
      | AVMEDIA_TYPE_AUDIO \<Rightarrow>
          (let bits_per_sample = av_get_bits_per_sample L (codec_id ctx)
           in if bits_per_sample \<noteq> 0
              then sample_rate ctx * channels ctx * bits_per_sample
              else bit_rate ctx)
      | _ \<Rightarrow> 0)"

section \<open>Text formatting used by the file\<close>

text \<open>
  \<^verbatim>\<open>operator<<\<close> on an \<^verbatim>\<open>int\<close> writes its decimal digits, with a minus sign when it
  is negative.
\<close>

definition digit_char :: "nat \<Rightarrow> char" where
  "digit_char d = ''0123456789ABCDEF'' ! d"

fun dec_nat :: "nat \<Rightarrow> string" where
  "dec_nat n = (if n < 10 then [digit_char n] else dec_nat (n div 10) @ [digit_char (n mod 10)])"

declare dec_nat.simps [simp del]

definition dec_int :: "int \<Rightarrow> string" where
  "dec_int i = (if i < 0 then CHR ''-'' # dec_nat (nat (- i)) else dec_nat (nat i))"

fun hex_nat :: "nat \<Rightarrow> string" where
  "hex_nat n = (if n < 16 then [digit_char n] else hex_nat (n div 16) @ [digit_char (n mod 16)])"

declare hex_nat.simps [simp del]

text \<open>
  The conversion \<^verbatim>\<open>%04X\<close> of an \<^verbatim>\<open>unsigned int\<close>: upper-case hexadecimal digits,
  padded with zeros on the left up to a width of four.
\<close>

definition format_04X :: "32 word \<Rightarrow> string" where
  "format_04X w = (let s = hex_nat (unat w) in replicate (4 - length s) CHR ''0'' @ s)"

text \<open>
  The conversion \<^verbatim>\<open>%.1f\<close> of the double \<^verbatim>\<open>t / 10.0\<close> for an \<^verbatim>\<open>int\<close> \<open>t\<close>. The double
  nearest to \<open>t / 10\<close> differs from it by far less than half a tenth, so the text is
  the exact decimal: sign, integer part, point, the tenths digit.
\<close>

definition format_1f_tenths :: "int \<Rightarrow> string" where
  "format_1f_tenths t =
     (if t < 0 then ''-'' else []) @ dec_nat (nat \<bar>t\<bar> div 10) @ ''.'' @ dec_nat (nat \<bar>t\<bar> mod 10)"

text \<open>
  \<^verbatim>\<open>sprintf_s\<close> into a \<^verbatim>\<open>char\<close> array of \<open>n\<close> bytes: when the text and its
  terminator do not fit, the CRT invokes the invalid-parameter handler, which ends the
  process.
\<close>

definition sprintf_s :: "nat \<Rightarrow> string \<Rightarrow> fault + string" where
  "sprintf_s n text = (if length text + 1 \<le> n then Inr text else Inl InvalidParameter)"

text \<open>
  \<^verbatim>\<open>strncmp\<close> of the C library on strings without embedded terminator: the end of
  a string compares as the character 0.
\<close>

fun strncmp :: "string \<Rightarrow> string \<Rightarrow> nat \<Rightarrow> int" where
  "strncmp s t 0 = 0"
| "strncmp [] [] (Suc n) = 0"
| "strncmp [] (d # t) (Suc n) = - 1"
| "strncmp (c # s) [] (Suc n) = 1"
| "strncmp (c # s) (d # t) (Suc n) =
     (if c = d then strncmp s t n
      else if (of_char c :: nat) < of_char d then - 1 else 1)"

text \<open>\<^verbatim>\<open>up\<close>, lines 95-103: ASCII lower-case letters become upper-case.\<close>

definition up_char :: "char \<Rightarrow> char" where
  "up_char c =
     (if (of_char c :: nat) \<le> of_char CHR ''z'' \<and> (of_char c :: nat) \<ge> of_char CHR ''a''
      then char_of ((of_char c :: nat) - (of_char CHR ''a'' - of_char CHR ''A''))
      else c)"

definition up :: "string \<Rightarrow> string" where
  "up str = map up_char str"

section \<open>Language of a stream\<close>

text \<open>
  \<^verbatim>\<open>get_stream_language\<close>, lines 59-71. The local \<^verbatim>\<open>lang\<close> starts as \<^verbatim>\<open>NULL\<close> and
  is passed to \<^verbatim>\<open>strncmp\<close> whatever the two branches did; \<^verbatim>\<open>strncmp\<close> reads its
  first argument, so a \<^verbatim>\<open>NULL\<close> there is a fault.
\<close>

definition get_stream_language :: "AVStream \<Rightarrow> fault + string option" where
  "get_stream_language pStream =
     (let lang =
        (case metadata pStream ''language'' of
           Some v \<Rightarrow> Some v
         | None \<Rightarrow>
             (case language pStream of
                Some l \<Rightarrow> if length l > 0 then Some l else None
              | None \<Rightarrow> None))
      in case lang of
           None \<Rightarrow> Inl NullPointerRead
         | Some l \<Rightarrow> if strncmp l ''und'' 3 \<noteq> 0 then Inr (Some l) else Inr None)"

text \<open>
  Lines 178-185 of \<^verbatim>\<open>lavf_describe_stream\<close>: the display name \<^verbatim>\<open>sLanguage\<close> of the
  language that \<^verbatim>\<open>get_stream_language\<close> returned.
\<close>

definition display_language :: "libs \<Rightarrow> string option \<Rightarrow> string" where
  "display_language L lang =
     (case lang of
        None \<Rightarrow> []
      | Some l \<Rightarrow>
          (let sLanguage = ProbeLangForLanguage L l
           in if sLanguage = [] then l else sLanguage))"

section \<open>Codec name\<close>

text \<open>The table \<^verbatim>\<open>nice_codec_names\<close>, lines 73-93.\<close>

definition nice_codec_names :: "s_codec_names list" where
  "nice_codec_names =
     [\<lparr>id_entry = CODEC_ID_VC1, name_entry = Some ''VC-1''\<rparr>,
      \<lparr>id_entry = CODEC_ID_MPEG2VIDEO, name_entry = Some ''MPEG-2''\<rparr>,
      \<lparr>id_entry = CODEC_ID_TRUEHD, name_entry = Some ''TrueHD''\<rparr>,
      \<lparr>id_entry = CODEC_ID_AC3, name_entry = Some ''AC-3''\<rparr>,
      \<lparr>id_entry = CODEC_ID_EAC3, name_entry = Some ''E-AC3''\<rparr>,
      \<lparr>id_entry = CODEC_ID_AAC_LATM, name_entry = Some ''AAC (LATM)''\<rparr>,
      \<lparr>id_entry = CODEC_ID_TEXT, name_entry = Some ''Text''\<rparr>,
      \<lparr>id_entry = CODEC_ID_SRT, name_entry = Some ''SRT''\<rparr>,
      \<lparr>id_entry = CODEC_ID_HDMV_PGS_SUBTITLE, name_entry = Some ''PGS''\<rparr>,
      \<lparr>id_entry = CODEC_ID_DVD_SUBTITLE, name_entry = Some ''DVD/VOB''\<rparr>,
      \<lparr>id_entry = CODEC_ID_DVB_SUBTITLE, name_entry = Some ''DVB''\<rparr>,
      \<lparr>id_entry = CODEC_ID_SSA, name_entry = Some ''SSA/ASS''\<rparr>,
      \<lparr>id_entry = CODEC_ID_XSUB, name_entry = Some ''XSUB''\<rparr>]"

text \<open>
  \<^verbatim>\<open>sizeof(nice_codec_names)\<close> is the size of the array in bytes: the number of its
  entries times the size of one entry.
\<close>

definition sizeof_nice_codec_names :: "libs \<Rightarrow> nat" where
  "sizeof_nice_codec_names L = length nice_codec_names * sizeof_s_codec_names L"

text \<open>
  \<^verbatim>\<open>nice_codec_names[i]\<close> as the compiled code reads it: the table entry when \<open>i\<close> is
  inside the array, the memory that follows the array otherwise.
\<close>

definition nice_codec_names_at :: "libs \<Rightarrow> nat \<Rightarrow> s_codec_names" where
  "nice_codec_names_at L i =
     (if i < length nice_codec_names then nice_codec_names ! i
      else after_nice_codec_names L (i - length nice_codec_names))"

text \<open>
  The loop of lines 115-122, from index \<open>i\<close> on. It returns the indices it has read,
  in order, and the final value of \<^verbatim>\<open>nice_name\<close>.
\<close>

function nice_name_loop :: "libs \<Rightarrow> CodecID \<Rightarrow> nat \<Rightarrow> nat list \<times> string option" where
  "nice_name_loop L cid i =
     (if i < sizeof_nice_codec_names L
      then (if id_entry (nice_codec_names_at L i) = cid
            then ([i], name_entry (nice_codec_names_at L i))
            else (case nice_name_loop L cid (Suc i) of (reads, nice_name) \<Rightarrow> (i # reads, nice_name)))
      else ([], None))"
  by pat_completeness auto
termination
  by (relation "measure (\<lambda>(L, cid, i). sizeof_nice_codec_names L - i)") auto

declare nice_name_loop.simps [simp del]

definition FF_LEVEL_UNKNOWN :: int where
  "FF_LEVEL_UNKNOWN = - 99"

text \<open>
  Line 107 of \<^verbatim>\<open>get_codec_name\<close>: the identity \<^verbatim>\<open>id\<close> that is resolved. A subtitle stream
  carries it behind \<^verbatim>\<open>opaque\<close>, which is read without a check.
\<close>

definition codec_identity :: "AVCodecContext \<Rightarrow> fault + CodecID" where
  "codec_identity pCodecCtx =
     (if codec_type pCodecCtx = AVMEDIA_TYPE_SUBTITLE
      then (case opaque pCodecCtx of None \<Rightarrow> Inl NullPointerRead | Some i \<Rightarrow> Inr i)
      else Inr (codec_id pCodecCtx))"

text \<open>\<^verbatim>\<open>get_codec_name\<close>, lines 105-148.\<close>

definition get_codec_name :: "libs \<Rightarrow> AVCodecContext \<Rightarrow> fault + string" where
  "get_codec_name L pCodecCtx =
     (case codec_identity pCodecCtx of
        Inl f \<Rightarrow> Inl f
      | Inr cid \<Rightarrow>
          (let p = avcodec_find_decoder L cid;
               profile_name =
                 (case p of None \<Rightarrow> None | Some c \<Rightarrow> av_get_profile_name L c (profile pCodecCtx));
               nice_name = snd (nice_name_loop L cid 0)
           in case (if cid = CODEC_ID_H264 then profile_name else None) of
                Some pr \<Rightarrow>
                  (if level pCodecCtx \<noteq> 0 \<and> level pCodecCtx \<noteq> FF_LEVEL_UNKNOWN
                        \<and> level pCodecCtx < 1000
                   then (case sprintf_s 5 (format_1f_tenths (level pCodecCtx)) of
                           Inl f \<Rightarrow> Inl f
                         | Inr l_buf \<Rightarrow> Inr (''H.264 '' @ pr @ '' L'' @ l_buf))
                   else Inr (''H.264 '' @ pr))
              | None \<Rightarrow>
                  (case (if cid = CODEC_ID_DTS then profile_name else None) of
                     Some pr \<Rightarrow> Inr pr
                   | None \<Rightarrow>
                       (case nice_name of
                          Some n \<Rightarrow> Inr n
                        | None \<Rightarrow>
                            (case p of
                               Some c \<Rightarrow> Inr (up (name c))
                             | None \<Rightarrow>
                                 (if codec_name pCodecCtx \<noteq> []
                                  then Inr (up (codec_name pCodecCtx))
                                  else (case sprintf_s 32 (''0x'' @ format_04X (codec_tag pCodecCtx)) of
                                          Inl f \<Rightarrow> Inl f
                                        | Inr buf \<Rightarrow>
                                            Inr (av_get_codec_tag_string L (codec_tag pCodecCtx)
                                                 @ '' / '' @ buf))))))))"

section \<open>Stream description\<close>

text \<open>
  Modelled from the spec: the constants of the libavcodec and libavformat headers that
  the description uses, which are not part of the file: the "no pixel format" value
  and the default, forced and hearing-impaired disposition flags.
\<close>

definition PIX_FMT_NONE :: int where
  "PIX_FMT_NONE = - 1"

definition AV_DISPOSITION_DEFAULT :: "32 word" where
  "AV_DISPOSITION_DEFAULT = 0x0001"

definition AV_DISPOSITION_FORCED :: "32 word" where
  "AV_DISPOSITION_FORCED = 0x0040"

definition AV_DISPOSITION_HEARING_IMPAIRED :: "32 word" where
  "AV_DISPOSITION_HEARING_IMPAIRED = 0x0080"

text \<open>\<^verbatim>\<open>show_sample_fmt\<close>, lines 150-166.\<close>

definition show_sample_fmt :: "libs \<Rightarrow> CodecID \<Rightarrow> bool" where
  "show_sample_fmt L cid =
     (if codec_id_value L cid \<ge> 0x10000 \<and> codec_id_value L cid < 0x12000 then True
      else if cid = CODEC_ID_MLP \<or> cid = CODEC_ID_TRUEHD \<or> cid = CODEC_ID_FLAC
              \<or> cid = CODEC_ID_WMALOSSLESS \<or> cid = CODEC_ID_WAVPACK
              \<or> cid = CODEC_ID_MP4ALS \<or> cid = CODEC_ID_ALAC then True
      else False)"

text \<open>
  The title and language segment, written three times in the source (lines 199-204,
  227-232 and 267-272), and the closing tag (lines 220-222, 257-259 and 275-277).
\<close>

definition title_lang_open :: "string option \<Rightarrow> string option \<Rightarrow> string \<Rightarrow> string" where
  "title_lang_open title lang sLanguage =
     (case title of
        Some t \<Rightarrow>
          (case lang of
             Some l \<Rightarrow> t @ '' ['' @ l @ ''] (''
           | None \<Rightarrow> t @ '' ('')
      | None \<Rightarrow>
          (case lang of
             Some l \<Rightarrow> sLanguage @ '' (''
           | None \<Rightarrow> []))"

definition title_lang_close :: "string option \<Rightarrow> string option \<Rightarrow> string" where
  "title_lang_close title lang = (if title = None \<and> lang = None then [] else '')'')"

text \<open>The bit rate segment, lines 216-218 and 253-255; the division is on a positive value.\<close>

definition bitrate_text :: "32 word \<Rightarrow> string" where
  "bitrate_text bitrate =
     (if 0 < sint bitrate then '', '' @ dec_int (sint bitrate div 1000) @ '' kb/s'' else [])"

text \<open>The subtitle flags, lines 280-290.\<close>

definition subtitle_flags :: "32 word \<Rightarrow> string" where
  "subtitle_flags disp =
     (if disp AND AV_DISPOSITION_FORCED \<noteq> 0 \<or> disp AND AV_DISPOSITION_HEARING_IMPAIRED \<noteq> 0
      then '' [''
           @ (if disp AND AV_DISPOSITION_FORCED \<noteq> 0 then ''forced'' else [])
           @ (if disp AND AV_DISPOSITION_HEARING_IMPAIRED \<noteq> 0
              then (if disp AND AV_DISPOSITION_FORCED \<noteq> 0 then '', '' else [])
                   @ ''hearing impaired''
              else [])
           @ '']''
      else [])"

text \<open>
  Lines 173-297 of \<^verbatim>\<open>lavf_describe_stream\<close>: the text \<^verbatim>\<open>info\<close>. Writing the \<^verbatim>\<open>NULL\<close>
  that \<^verbatim>\<open>avcodec_get_pix_fmt_name\<close> returns for a format it does not know reads
  through it.
\<close>

definition describe_info :: "libs \<Rightarrow> AVStream \<Rightarrow> fault + string" where
  "describe_info L pStream =
     (let enc = codec pStream
      in case get_codec_name L enc of
           Inl f \<Rightarrow> Inl f
         | Inr codec_name' \<Rightarrow>
             (case get_stream_language pStream of
                Inl f \<Rightarrow> Inl f
              | Inr lang \<Rightarrow>
                  (let sLanguage = display_language L lang;
                       title = metadata pStream ''title'';
                       bitrate = get_bit_rate L enc
                   in case codec_type enc of
                        AVMEDIA_TYPE_VIDEO \<Rightarrow>
                          (case (if pix_fmt enc \<noteq> PIX_FMT_NONE
                                 then (case avcodec_get_pix_fmt_name L (pix_fmt enc) of
                                         None \<Rightarrow> Inl NullPointerRead
                                       | Some n \<Rightarrow> Inr ('', '' @ n))
                                 else Inr []) of
                             Inl f \<Rightarrow> Inl f
                           | Inr pix \<Rightarrow>
                               Inr (''V: '' @ title_lang_open title lang sLanguage
                                    @ codec_name'
                                    @ pix
                                    @ (if width enc \<noteq> 0
                                       then '', '' @ dec_int (width enc) @ ''x'' @ dec_int (height enc)
                                       else [])
                                    @ bitrate_text bitrate
                                    @ title_lang_close title lang))
                      | AVMEDIA_TYPE_AUDIO \<Rightarrow>
                          Inr (''A: '' @ title_lang_open title lang sLanguage
                               @ codec_name'
                               @ (if sample_rate enc \<noteq> 0
                                  then '', '' @ dec_int (sint (sample_rate enc)) @ '' Hz''
                                  else [])
                               @ '', '' @ av_get_channel_layout_string L (channels enc) (channel_layout enc)
                               @ (if show_sample_fmt L (codec_id enc) \<and> get_bits_per_sample L enc \<noteq> 0
                                  then (if sample_fmt enc = AV_SAMPLE_FMT_FLT
                                           \<or> sample_fmt enc = AV_SAMPLE_FMT_DBL
                                        then '', fp'' else '', s'')
                                       @ dec_int (get_bits_per_sample L enc)
                                  else [])
                               @ bitrate_text bitrate
                               @ title_lang_close title lang
                               @ (if disposition pStream AND AV_DISPOSITION_DEFAULT \<noteq> 0
                                  then '' [default]'' else []))
                      | AVMEDIA_TYPE_SUBTITLE \<Rightarrow>
                          Inr (''S: '' @ title_lang_open title lang sLanguage
                               @ codec_name'
                               @ title_lang_close title lang
                               @ subtitle_flags (disposition pStream))
                      | _ \<Rightarrow> Inr (''Unknown: Stream #'' @ dec_int (index pStream)))))"

datatype HRESULT = S_OK | E_POINTER

text \<open>
  What the call leaves in \<^verbatim>\<open>*ppszName\<close>: nothing, or the pointer that
  \<^verbatim>\<open>CoTaskMemAlloc\<close> returned, \<open>None\<close> for \<^verbatim>\<open>NULL\<close> and \<open>Some w\<close> for a buffer that
  holds the wide string \<open>w\<close>.
\<close>

datatype out_name = Untouched | Stored "16 word list option"

text \<open>
  \<^verbatim>\<open>lavf_describe_stream\<close>, lines 168-303. \<open>ppszName\<close> tells whether the output
  pointer is non-\<^verbatim>\<open>NULL\<close>. The result of \<^verbatim>\<open>CoTaskMemAlloc\<close> is stored and passed on
  unchecked; \<^verbatim>\<open>MultiByteToWideChar\<close> refuses a \<^verbatim>\<open>NULL\<close> destination with a non-zero
  size and returns 0, which the function ignores.
\<close>

definition lavf_describe_stream ::
    "libs \<Rightarrow> AVStream option \<Rightarrow> bool \<Rightarrow> fault + (HRESULT \<times> out_name)" where
  "lavf_describe_stream L pStream ppszName =
     (case pStream of
        None \<Rightarrow> Inr (E_POINTER, Untouched)
      | Some st \<Rightarrow>
          (if \<not> ppszName then Inr (E_POINTER, Untouched)
           else (case describe_info L st of
                   Inl f \<Rightarrow> Inl f
                 | Inr info \<Rightarrow>
                     (let len = length info + 1
                      in if CoTaskMemAlloc L (len * 2)
                         then Inr (S_OK, Stored (Some (snd (MultiByteToWideChar L 0 info len))))
                         else Inr (S_OK, Stored None)))))"

section \<open>The ufile protocol\<close>

text \<open>
  Modelled from the spec: the constants of the C runtime and libavformat headers that
  the protocol uses, which are not part of the file: the open flags of \<^verbatim>\<open>fcntl.h\<close>,
  the sharing and permission flags passed to \<^verbatim>\<open>_wsopen_s\<close>, the conversion flag
  \<^verbatim>\<open>MB_ERR_INVALID_CHARS\<close>, the error numbers, the seek origins, and the reserved
  "report size" value of \<^verbatim>\<open>whence\<close>. The names of the C runtime are written
  without their leading underscore (\<open>O_CREAT\<close> is \<^verbatim>\<open>_O_CREAT\<close>).
\<close>

definition O_RDONLY :: "32 word" where "O_RDONLY = 0x0000"
definition O_WRONLY :: "32 word" where "O_WRONLY = 0x0001"
definition O_RDWR :: "32 word" where "O_RDWR = 0x0002"
definition O_CREAT :: "32 word" where "O_CREAT = 0x0100"
definition O_TRUNC :: "32 word" where "O_TRUNC = 0x0200"
definition SH_DENYNO :: "32 word" where "SH_DENYNO = 0x40"
definition S_IREAD :: "32 word" where "S_IREAD = 0x0100"
definition S_IWRITE :: "32 word" where "S_IWRITE = 0x0080"
definition MB_ERR_INVALID_CHARS :: "32 word" where "MB_ERR_INVALID_CHARS = 0x00000008"
definition ENOENT :: int where "ENOENT = 2"
definition EBADF :: int where "EBADF = 9"
definition EINVAL :: int where "EINVAL = 22"
definition SEEK_SET :: int where "SEEK_SET = 0"
definition SEEK_CUR :: int where "SEEK_CUR = 1"
definition SEEK_END :: int where "SEEK_END = 2"
definition AVSEEK_SIZE :: int where "AVSEEK_SIZE = 0x10000"

text \<open>The macro \<^verbatim>\<open>AVERROR\<close> of libavutil negates a positive error number.\<close>

definition AVERROR :: "int \<Rightarrow> int" where
  "AVERROR e = - e"

text \<open>
  Modelled from the spec: the host's status query, 64-bit seek and byte-level read
  (\<^verbatim>\<open>_fstat64\<close>, \<^verbatim>\<open>_lseeki64\<close> and \<^verbatim>\<open>_read\<close> of the C runtime), which are not part
  of the file. The status query reports the size of the file and moves nothing; the
  seek sets the position from the start, the current position or the end; the read
  returns the bytes from the position on and advances it. Each fails with \<open>- 1\<close> and
  sets \<^verbatim>\<open>errno\<close> on a descriptor that is not open.
\<close>

definition fstat64 :: "host \<Rightarrow> int \<Rightarrow> host \<times> int \<times> int" where
  "fstat64 x fd =
     (case open_files x fd of
        None \<Rightarrow> (x\<lparr>errno := EBADF\<rparr>, - 1, 0)
      | Some f \<Rightarrow> (x, 0, int (length (contents f))))"

definition lseeki64 :: "host \<Rightarrow> int \<Rightarrow> int \<Rightarrow> int \<Rightarrow> host \<times> int" where
  "lseeki64 x fd offset origin =
     (case open_files x fd of
        None \<Rightarrow> (x\<lparr>errno := EBADF\<rparr>, - 1)
      | Some f \<Rightarrow>
          (case (if origin = SEEK_SET then Some 0
                 else if origin = SEEK_CUR then Some (file_pos f)
                 else if origin = SEEK_END then Some (int (length (contents f)))
                 else None) of
             None \<Rightarrow> (x\<lparr>errno := EINVAL\<rparr>, - 1)
           | Some base \<Rightarrow>
               (if base + offset < 0 then (x\<lparr>errno := EINVAL\<rparr>, - 1)
                else (x\<lparr>open_files := (open_files x)(fd \<mapsto> f\<lparr>file_pos := base + offset\<rparr>)\<rparr>,
                      base + offset))))"

definition read_crt :: "host \<Rightarrow> int \<Rightarrow> int \<Rightarrow> host \<times> int \<times> 8 word list" where
  "read_crt x fd n =
     (case open_files x fd of
        None \<Rightarrow> (x\<lparr>errno := EBADF\<rparr>, - 1, [])
      | Some f \<Rightarrow>
          (if n < 0 then (x\<lparr>errno := EINVAL\<rparr>, - 1, [])
           else (let bytes = take (nat n) (drop (nat (file_pos f)) (contents f))
                 in (x\<lparr>open_files := (open_files x)(fd \<mapsto> f\<lparr>file_pos := file_pos f + int (length bytes)\<rparr>)\<rparr>,
                     int (length bytes), bytes))))"

text \<open>
  \<^verbatim>\<open>av_strstart(filename, "ufile:", &filename)\<close> of libavutil, as the file calls it:
  when the string starts with the prefix, the pointer is moved past it; otherwise it
  is left where it was.
\<close>

definition av_strstart :: "string \<Rightarrow> string \<Rightarrow> string" where
  "av_strstart str pfx =
     (if take (length pfx) str = pfx then drop (length pfx) str else str)"

text \<open>Lines 328-337 of \<^verbatim>\<open>ufile_open\<close>: the access mode passed to the host.\<close>

definition ufile_access :: "libs \<Rightarrow> 32 word \<Rightarrow> 32 word" where
  "ufile_access L flags =
     (let access =
        (if flags AND URL_RDWR L \<noteq> 0 then O_CREAT OR O_TRUNC OR O_RDWR
         else if flags AND URL_WRONLY L \<noteq> 0 then O_CREAT OR O_TRUNC OR O_WRONLY
         else O_RDONLY)
      in case O_BINARY L of Some b \<Rightarrow> access OR b | None \<Rightarrow> access)"

text \<open>\<^verbatim>\<open>ufile_open\<close>, lines 306-343.\<close>

definition ufile_open :: "libs \<Rightarrow> host \<Rightarrow> URLContext \<Rightarrow> string \<Rightarrow> 32 word \<Rightarrow> host \<times> URLContext \<times> int" where
  "ufile_open L x h filename flags =
     (let (nChars, wfilename) =
            MultiByteToWideChar L MB_ERR_INVALID_CHARS (av_strstart filename ''ufile:'') 4096
      in if nChars \<le> 0 then (x, h, AVERROR ENOENT)
         else (let (x', fd) = wsopen_s L x wfilename (ufile_access L flags) SH_DENYNO (S_IREAD OR S_IWRITE)
               in if fd = - 1 then (x', h, AVERROR (errno x'))
                  else (x', h\<lparr>priv_data := fd\<rparr>, 0)))"

text \<open>\<^verbatim>\<open>ufile_read\<close>, lines 345-349.\<close>

definition ufile_read :: "host \<Rightarrow> URLContext \<Rightarrow> int \<Rightarrow> host \<times> int \<times> 8 word list" where
  "ufile_read x h n = (let fd = priv_data h in read_crt x fd n)"

text \<open>\<^verbatim>\<open>ufile_seek\<close>, lines 363-372.\<close>

definition ufile_seek :: "host \<Rightarrow> URLContext \<Rightarrow> int \<Rightarrow> int \<Rightarrow> host \<times> int" where
  "ufile_seek x h pos whence =
     (let fd = priv_data h
      in if whence = AVSEEK_SIZE
         then (let (x', ret, st_size) = fstat64 x fd
               in (x', if ret < 0 then AVERROR (errno x') else st_size))
         else lseeki64 x fd pos whence)"

section \<open>Example inputs\<close>

text \<open>
  A concrete set of collaborators, used to run the functions: a decoder registry that
  knows H.264, DTS and AC-3, a language table that knows English only, 16-bit PCM as
  the one codec with a fixed sample size, a 32-bit build (8 bytes for each table
  entry) with zeroed memory after the table, an allocator that succeeds, and a
  conversion to wide characters that accepts ASCII and rejects every other byte when
  \<^verbatim>\<open>MB_ERR_INVALID_CHARS\<close> is set.
\<close>

definition ex_libs :: libs where
  "ex_libs =
     \<lparr>avcodec_find_decoder =
        (\<lambda>cid. if cid = CODEC_ID_H264 then Some \<lparr>name = ''h264''\<rparr>
               else if cid = CODEC_ID_DTS then Some \<lparr>name = ''dca''\<rparr>
               else if cid = CODEC_ID_AC3 then Some \<lparr>name = ''ac3''\<rparr>
               else None),
      av_get_profile_name =
        (\<lambda>c p. if name c = ''h264'' \<and> p = 100 then Some ''High''
               else if name c = ''dca'' \<and> p = 60 then Some ''DTS-HD MA''
               else None),
      av_get_bits_per_sample = (\<lambda>cid. if cid = CODEC_ID_OTHER 0x10000 then 16 else 0),
      av_get_codec_tag_string = (\<lambda>t. if t = 0x34363248 then ''H264'' else ''[0][0][0][0]''),
      ProbeLangForLanguage = (\<lambda>l. if l = ''eng'' then ''English'' else []),
      avcodec_get_pix_fmt_name = (\<lambda>f. if f = 0 then Some ''yuv420p'' else None),
      av_get_channel_layout_string = (\<lambda>c l. if c = 2 then ''stereo'' else ''mono''),
      get_bits_per_sample = (\<lambda>ctx. if codec_id ctx = CODEC_ID_OTHER 0x10000 then 16 else 0),
      codec_id_value = (\<lambda>cid. case cid of CODEC_ID_OTHER n \<Rightarrow> n | _ \<Rightarrow> 0),
      CoTaskMemAlloc = (\<lambda>n. True),
      MultiByteToWideChar =
        (\<lambda>flags src n.
           if length src + 1 \<le> n
              \<and> (flags AND MB_ERR_INVALID_CHARS = 0 \<or> list_all (\<lambda>c. (of_char c :: nat) < 128) src)
           then (int (length src) + 1, map (\<lambda>c. of_nat (of_char c)) src)
           else (0, [])),
      sizeof_s_codec_names = 8,
      after_nice_codec_names = (\<lambda>k. \<lparr>id_entry = CODEC_ID_OTHER 0, name_entry = None\<rparr>),
      wsopen_s =
        (\<lambda>x path access shflag pmode.
           if path = map (\<lambda>c. of_nat (of_char c)) ''a.mkv''
           then (x\<lparr>open_files := (open_files x)(3 \<mapsto> \<lparr>contents = [1, 2, 3, 4, 5], file_pos = 0\<rparr>)\<rparr>, 3)
           else (x\<lparr>errno := ENOENT\<rparr>, - 1)),
      URL_WRONLY = 1,
      URL_RDWR = 2,
      O_BINARY = Some 0x8000\<rparr>"

text \<open>The same collaborators with an allocator that fails.\<close>

definition ex_libs_no_memory :: libs where
  "ex_libs_no_memory = ex_libs\<lparr>CoTaskMemAlloc := (\<lambda>n. False)\<rparr>"

text \<open>A codec context with every field empty, and variants of it.\<close>

definition ex_ctx :: AVCodecContext where
  "ex_ctx =
     \<lparr>codec_type = AVMEDIA_TYPE_UNKNOWN, codec_id = CODEC_ID_OTHER 0, opaque = None,
      bit_rate = 0, sample_rate = 0, channels = 0, channel_layout = 0,
      sample_fmt = AV_SAMPLE_FMT_NONE, profile = 0, level = 0, codec_name = [],
      codec_tag = 0, pix_fmt = - 1, width = 0, height = 0\<rparr>"

definition ex_h264 :: "int \<Rightarrow> AVCodecContext" where
  "ex_h264 lv = ex_ctx\<lparr>codec_type := AVMEDIA_TYPE_VIDEO, codec_id := CODEC_ID_H264,
                       profile := 100, level := lv\<rparr>"

definition ex_pcm :: AVCodecContext where
  "ex_pcm = ex_ctx\<lparr>codec_type := AVMEDIA_TYPE_AUDIO, codec_id := CODEC_ID_OTHER 0x10000,
                   sample_rate := 48000, channels := 2, bit_rate := 192000\<rparr>"

definition ex_compressed_audio :: AVCodecContext where
  "ex_compressed_audio = ex_pcm\<lparr>codec_id := CODEC_ID_OTHER 0x15001\<rparr>"

definition ex_tagged :: AVCodecContext where
  "ex_tagged = ex_ctx\<lparr>codec_type := AVMEDIA_TYPE_VIDEO, codec_tag := 0x34363248\<rparr>"

text \<open>Streams: one without any language, and one whose metadata names a language.\<close>

definition ex_stream :: AVStream where
  "ex_stream =
     \<lparr>index = 0, codec = ex_h264 41, metadata = (\<lambda>k. None), language = Some [],
      disposition = 0\<rparr>"

definition ex_stream_lang :: "string \<Rightarrow> AVStream" where
  "ex_stream_lang l = ex_stream\<lparr>metadata := (\<lambda>k. if k = ''language'' then Some l else None)\<rparr>"

text \<open>A host with one open file of five bytes on descriptor 3, read up to position 2.\<close>

definition ex_host :: host where
  "ex_host =
     \<lparr>open_files = (\<lambda>fd. if fd = 3 then Some \<lparr>contents = [10, 20, 30, 40, 50], file_pos = 2\<rparr> else None),
      errno = 0\<rparr>"

definition ex_handle :: URLContext where
  "ex_handle = \<lparr>priv_data = 3\<rparr>"

section \<open>Bit rate: claim C7\<close>

text \<open>
  A product of two 32-bit \<^verbatim>\<open>int\<close>s that fits 32 bits is the product of the integers.
\<close>

lemma sint_mult_exact:
  fixes a b :: "32 word"
  assumes "- (2 ^ 31) \<le> sint a * sint b" and "sint a * sint b < 2 ^ 31"
  shows "sint (a * b) = sint a * sint b"
proof -
  have "sint (a * b) = signed_take_bit 31 (sint a * sint b)"
    by (simp add: sint_word_ariths)
  also have "\<dots> = sint a * sint b"
    using assms by (simp add: signed_take_bit_int_eq_self)
  finally show ?thesis .
qed

lemma get_bit_rate_audio_exact:
  assumes "codec_type ctx = AVMEDIA_TYPE_AUDIO"
    and "av_get_bits_per_sample L (codec_id ctx) \<noteq> 0"
    and "- (2 ^ 31) \<le> sint (sample_rate ctx) * sint (channels ctx)"
    and "sint (sample_rate ctx) * sint (channels ctx) < 2 ^ 31"
    and "- (2 ^ 31) \<le> sint (sample_rate ctx) * sint (channels ctx)
                       * sint (av_get_bits_per_sample L (codec_id ctx))"
    and "sint (sample_rate ctx) * sint (channels ctx)
         * sint (av_get_bits_per_sample L (codec_id ctx)) < 2 ^ 31"
  shows "sint (get_bit_rate L ctx)
         = sint (sample_rate ctx) * sint (channels ctx)
           * sint (av_get_bits_per_sample L (codec_id ctx))"
proof -
  have first: "sint (sample_rate ctx * channels ctx) = sint (sample_rate ctx) * sint (channels ctx)"
    using assms(3,4) by (rule sint_mult_exact)
  have "sint (sample_rate ctx * channels ctx * av_get_bits_per_sample L (codec_id ctx))
        = sint (sample_rate ctx * channels ctx) * sint (av_get_bits_per_sample L (codec_id ctx))"
    using assms(5,6) unfolding first [symmetric] by (rule sint_mult_exact)
  with first assms(1,2) show ?thesis
    by (simp add: get_bit_rate_def Let_def)
qed

text \<open>
  Claim C7, as amended. \<^verbatim>\<open>get_bit_rate\<close> returns the declared bit rate for video,
  data, subtitle and attachment streams; for audio it returns the product of sample
  rate, channel count and bits per sample, computed on 32-bit \<^verbatim>\<open>int\<close>s, when
  \<^verbatim>\<open>av_get_bits_per_sample\<close> knows a non-zero sample size for the codec, and the
  declared bit rate otherwise; for every other media type it returns 0. The 32-bit
  product is the product of the three integers whenever that product, and the product
  of the first two, fit 32 bits.
\<close>

theorem get_bit_rate_by_media_type:
  "get_bit_rate L ctx =
     (if codec_type ctx = AVMEDIA_TYPE_VIDEO \<or> codec_type ctx = AVMEDIA_TYPE_DATA
         \<or> codec_type ctx = AVMEDIA_TYPE_SUBTITLE \<or> codec_type ctx = AVMEDIA_TYPE_ATTACHMENT
      then bit_rate ctx
      else if codec_type ctx = AVMEDIA_TYPE_AUDIO
      then (if av_get_bits_per_sample L (codec_id ctx) \<noteq> 0
            then sample_rate ctx * channels ctx * av_get_bits_per_sample L (codec_id ctx)
            else bit_rate ctx)
      else 0)
   \<and> (codec_type ctx = AVMEDIA_TYPE_AUDIO
        \<and> av_get_bits_per_sample L (codec_id ctx) \<noteq> 0
        \<and> - (2 ^ 31) \<le> sint (sample_rate ctx) * sint (channels ctx)
        \<and> sint (sample_rate ctx) * sint (channels ctx) < 2 ^ 31
        \<and> - (2 ^ 31) \<le> sint (sample_rate ctx) * sint (channels ctx)
                          * sint (av_get_bits_per_sample L (codec_id ctx))
        \<and> sint (sample_rate ctx) * sint (channels ctx)
            * sint (av_get_bits_per_sample L (codec_id ctx)) < 2 ^ 31
      \<longrightarrow> sint (get_bit_rate L ctx)
           = sint (sample_rate ctx) * sint (channels ctx)
             * sint (av_get_bits_per_sample L (codec_id ctx)))"
proof -
  have "get_bit_rate L ctx =
     (if codec_type ctx = AVMEDIA_TYPE_VIDEO \<or> codec_type ctx = AVMEDIA_TYPE_DATA
         \<or> codec_type ctx = AVMEDIA_TYPE_SUBTITLE \<or> codec_type ctx = AVMEDIA_TYPE_ATTACHMENT
      then bit_rate ctx
      else if codec_type ctx = AVMEDIA_TYPE_AUDIO
      then (if av_get_bits_per_sample L (codec_id ctx) \<noteq> 0
            then sample_rate ctx * channels ctx * av_get_bits_per_sample L (codec_id ctx)
            else bit_rate ctx)
      else 0)"
    by (cases "codec_type ctx") (simp_all add: get_bit_rate_def Let_def)
  then show ?thesis
    using get_bit_rate_audio_exact [of ctx L] by blast
qed

text \<open>
  The two examples of the claim: 48000 Hz, 2 channels and 16 bits give 1536000; the
  same stream with no known sample size and a declared bit rate of 192000 gives 192000.
\<close>

theorem get_bit_rate_examples:
  "codec_type ex_pcm = AVMEDIA_TYPE_AUDIO
   \<and> sample_rate ex_pcm = 48000 \<and> channels ex_pcm = 2
   \<and> av_get_bits_per_sample ex_libs (codec_id ex_pcm) = 16
   \<and> get_bit_rate ex_libs ex_pcm = 1536000
   \<and> sint (get_bit_rate ex_libs ex_pcm) = 48000 * 2 * 16
   \<and> sample_rate ex_compressed_audio = 48000 \<and> channels ex_compressed_audio = 2
   \<and> av_get_bits_per_sample ex_libs (codec_id ex_compressed_audio) = 0
   \<and> bit_rate ex_compressed_audio = 192000
   \<and> get_bit_rate ex_libs ex_compressed_audio = 192000"
  using get_bit_rate_by_media_type [of ex_libs ex_pcm]
        get_bit_rate_by_media_type [of ex_libs ex_compressed_audio]
  by (simp add: ex_libs_def ex_pcm_def ex_compressed_audio_def ex_ctx_def)

text \<open>
  Claim C7 as stated says that for every audio stream with a known sample size the
  result is the product of sample rate, channel count and bits per sample. At
  96000000 Hz, 2 channels and 16 bits the product is 3072000000, which does not fit a
  32-bit \<^verbatim>\<open>int\<close>, and the code returns \<open>- 1222967296\<close>.
\<close>

theorem get_bit_rate_product_wraps:
  "codec_type (ex_pcm\<lparr>sample_rate := 96000000\<rparr>) = AVMEDIA_TYPE_AUDIO
   \<and> sint (sample_rate (ex_pcm\<lparr>sample_rate := 96000000\<rparr>)) = 96000000
   \<and> sint (channels (ex_pcm\<lparr>sample_rate := 96000000\<rparr>)) = 2
   \<and> sint (av_get_bits_per_sample ex_libs (codec_id (ex_pcm\<lparr>sample_rate := 96000000\<rparr>))) = 16
   \<and> (96000000 :: int) * 2 * 16 = 3072000000
   \<and> sint (get_bit_rate ex_libs (ex_pcm\<lparr>sample_rate := 96000000\<rparr>)) = - 1222967296"
  by (simp add: get_bit_rate_def Let_def ex_pcm_def ex_ctx_def ex_libs_def)

text \<open>Another wrap: \<open>2 ^ 30\<close> Hz, 2 channels and 32 bits give 0.\<close>

lemma get_bit_rate_wraps:
  "get_bit_rate (ex_libs\<lparr>av_get_bits_per_sample := (\<lambda>c. 32)\<rparr>)
     (ex_pcm\<lparr>sample_rate := 0x40000000, channels := 2\<rparr>) = 0"
  by (simp add: get_bit_rate_def Let_def ex_pcm_def ex_ctx_def ex_libs_def)

section \<open>Language of a stream: claim C3\<close>

lemma strncmp_zero_iff: "strncmp s t n = 0 \<longleftrightarrow> take n s = take n t"
  by (induction s t n rule: strncmp.induct) auto

text \<open>
  A stream with no \<^verbatim>\<open>language\<close> metadata entry and no (or an empty) stream-level
  language leaves \<^verbatim>\<open>lang\<close> at \<^verbatim>\<open>NULL\<close>, and the comparison with \<^verbatim>\<open>"und"\<close> reads it.
\<close>

lemma get_stream_language_absent:
  assumes "metadata s ''language'' = None"
    and "language s = None \<or> language s = Some []"
  shows "get_stream_language s = Inl NullPointerRead"
  using assms by (auto simp: get_stream_language_def)

text \<open>
  Claim C3 says that \<^verbatim>\<open>get_stream_language\<close> returns \<^verbatim>\<open>NULL\<close> without faulting when the
  stream has neither a \<^verbatim>\<open>language\<close> metadata entry nor a non-empty stream-level
  language, and that the comparison with \<^verbatim>\<open>"und"\<close> is never applied to a missing
  value. The code does apply it: on such a stream the call faults on the \<^verbatim>\<open>NULL\<close>
  that it passes to \<^verbatim>\<open>strncmp\<close>.
\<close>

theorem get_stream_language_null_strncmp:
  "metadata ex_stream ''language'' = None \<and> language ex_stream = Some []
   \<and> get_stream_language ex_stream = Inl NullPointerRead"
  by (simp add: get_stream_language_def ex_stream_def)

section \<open>The scan of the nice-name table: claim C2\<close>

text \<open>The scan stops at the first index whose entry has the identity looked for.\<close>

lemma nice_name_loop_found:
  assumes "i \<le> k" and "k < sizeof_nice_codec_names L"
    and "\<And>j. i \<le> j \<Longrightarrow> j < k \<Longrightarrow> id_entry (nice_codec_names_at L j) \<noteq> cid"
    and "id_entry (nice_codec_names_at L k) = cid"
  shows "nice_name_loop L cid i = ([i..<Suc k], name_entry (nice_codec_names_at L k))"
  using assms
proof (induction "k - i" arbitrary: i)
  case 0
  then have "i = k" by simp
  with 0 show ?case by (simp add: nice_name_loop.simps [of L cid k])
next
  case (Suc d)
  then have lt: "i < k" by simp
  with Suc.prems have here: "id_entry (nice_codec_names_at L i) \<noteq> cid" by simp
  have rest: "nice_name_loop L cid (Suc i) = ([Suc i..<Suc k], name_entry (nice_codec_names_at L k))"
    using Suc.hyps(1) [of "Suc i"] Suc.hyps(2) Suc.prems lt by simp
  have "i < sizeof_nice_codec_names L" using lt Suc.prems(2) by simp
  with here rest lt show ?case
    by (simp add: nice_name_loop.simps [of L cid i] upt_conv_Cons)
qed

text \<open>Without a match it reads every index below \<^verbatim>\<open>sizeof(nice_codec_names)\<close>.\<close>

lemma nice_name_loop_not_found:
  assumes "\<And>j. i \<le> j \<Longrightarrow> j < sizeof_nice_codec_names L \<Longrightarrow> id_entry (nice_codec_names_at L j) \<noteq> cid"
  shows "nice_name_loop L cid i = ([i..<sizeof_nice_codec_names L], None)"
  using assms
proof (induction "sizeof_nice_codec_names L - i" arbitrary: i)
  case 0
  then show ?case by (simp add: nice_name_loop.simps [of L cid i])
next
  case (Suc d)
  then have lt: "i < sizeof_nice_codec_names L" by simp
  with Suc.prems have here: "id_entry (nice_codec_names_at L i) \<noteq> cid" by simp
  have rest: "nice_name_loop L cid (Suc i) = ([Suc i..<sizeof_nice_codec_names L], None)"
    using Suc.hyps(1) [of "Suc i"] Suc.hyps(2) Suc.prems by simp
  with here lt show ?case
    by (simp add: nice_name_loop.simps [of L cid i] upt_conv_Cons)
qed

lemma table_entry_id:
  assumes "j < length nice_codec_names"
  shows "id_entry (nice_codec_names ! j) \<in> id_entry ` set nice_codec_names"
proof -
  from assms have "nice_codec_names ! j \<in> set nice_codec_names" by (rule nth_mem)
  then show ?thesis by (rule imageI)
qed

text \<open>
  Claim C2 says that the scan examines only the 13 entries of the table, indices 0 to
  12, and stops without indexing past the end when the identity is not in the table.
  The loop bound is \<^verbatim>\<open>sizeof(nice_codec_names)\<close>, a number of bytes: on a 32-bit build
  the scan for H.264, which is not in the table, reads the indices 0 to 103.
\<close>

theorem nice_name_loop_reads_past_table:
  "length nice_codec_names = 13
   \<and> sizeof_nice_codec_names ex_libs = 104
   \<and> nice_name_loop ex_libs CODEC_ID_H264 0 = ([0..<104], None)"
proof -
  have len: "length nice_codec_names = 13" by (simp add: nice_codec_names_def)
  have sz: "sizeof_nice_codec_names ex_libs = 104"
    by (simp add: sizeof_nice_codec_names_def len ex_libs_def)
  have notin: "CODEC_ID_H264 \<notin> id_entry ` set nice_codec_names"
    by (simp add: nice_codec_names_def)
  have "id_entry (nice_codec_names_at ex_libs j) \<noteq> CODEC_ID_H264" for j
  proof (cases "j < length nice_codec_names")
    case True
    then have "id_entry (nice_codec_names ! j) \<in> id_entry ` set nice_codec_names"
      by (rule table_entry_id)
    with notin have "id_entry (nice_codec_names ! j) \<noteq> CODEC_ID_H264"
      by metis
    with True show ?thesis
      by (simp add: nice_codec_names_at_def)
  next
    case False
    then show ?thesis by (simp add: nice_codec_names_at_def ex_libs_def)
  qed
  then have "nice_name_loop ex_libs CODEC_ID_H264 0 = ([0..<sizeof_nice_codec_names ex_libs], None)"
    by (intro nice_name_loop_not_found) simp
  with len sz show ?thesis by simp
qed

section \<open>Names from the table: claim C9\<close>

text \<open>Facts about the table: its identities are distinct, and none is H.264 or DTS.\<close>

lemma table_ids_distinct: "distinct (map id_entry nice_codec_names)"
  by (simp add: nice_codec_names_def)

lemma table_names_present: "e \<in> set nice_codec_names \<Longrightarrow> \<exists>n. name_entry e = Some n"
  by (auto simp: nice_codec_names_def)

lemma table_ids_plain:
  "e \<in> set nice_codec_names \<Longrightarrow> id_entry e \<noteq> CODEC_ID_H264 \<and> id_entry e \<noteq> CODEC_ID_DTS"
  by (auto simp: nice_codec_names_def)

lemma find_distinct_key:
  "distinct (map f xs) \<Longrightarrow> e \<in> set xs \<Longrightarrow> find (\<lambda>t. f t = f e) xs = Some e"
  by (induction xs) (auto simp: rev_image_eqI)

lemma table_first_match:
  "e \<in> set nice_codec_names \<Longrightarrow> find (\<lambda>t. id_entry t = id_entry e) nice_codec_names = Some e"
  using table_ids_distinct by (rule find_distinct_key)

lemma distinct_before:
  assumes "distinct (map f xs)" and "k < length xs" and "j < k"
  shows "f (xs ! j) \<noteq> f (xs ! k)"
proof -
  from assms have "map f xs ! j \<noteq> map f xs ! k"
    by (simp only: distinct_conv_nth length_map) auto
  with assms show ?thesis by simp
qed

text \<open>The scan for the identity of entry \<open>k\<close> stops at index \<open>k\<close>.\<close>

lemma nice_name_loop_table:
  assumes k: "k < length nice_codec_names" and sz: "0 < sizeof_s_codec_names L"
  shows "nice_name_loop L (id_entry (nice_codec_names ! k)) 0
         = ([0..<Suc k], name_entry (nice_codec_names ! k))"
proof -
  have "length nice_codec_names \<le> sizeof_nice_codec_names L"
    using sz by (simp add: sizeof_nice_codec_names_def)
  with k have bound: "k < sizeof_nice_codec_names L" by simp
  have at_k: "nice_codec_names_at L k = nice_codec_names ! k"
    using k by (simp add: nice_codec_names_at_def)
  have before: "id_entry (nice_codec_names_at L j) \<noteq> id_entry (nice_codec_names ! k)"
    if "j < k" for j
  proof -
    from that k have j: "j < length nice_codec_names" by simp
    have "id_entry (nice_codec_names ! j) \<noteq> id_entry (nice_codec_names ! k)"
      using table_ids_distinct k that by (rule distinct_before)
    with j show ?thesis by (simp add: nice_codec_names_at_def)
  qed
  show ?thesis
    using nice_name_loop_found [of 0 k L "id_entry (nice_codec_names ! k)"] bound before at_k
    by simp
qed

text \<open>
  Claim C9. For every entry of the table \<^verbatim>\<open>nice_codec_names\<close>, resolving a codec
  context whose identity is the entry's returns exactly the entry's name, and the
  entry is the first one of the table with that identity. No entry of the table is
  H.264 or DTS, so the result does not depend on the profile name. The size of a
  table entry is positive on every build.
\<close>

theorem nice_name_of_table_entry:
  assumes "e \<in> set nice_codec_names"
    and "0 < sizeof_s_codec_names L"
    and "codec_identity ctx = Inr (id_entry e)"
  shows "(\<exists>n. name_entry e = Some n \<and> get_codec_name L ctx = Inr n)
         \<and> find (\<lambda>t. id_entry t = id_entry e) nice_codec_names = Some e"
proof -
  from assms(1) obtain k where k: "k < length nice_codec_names" and e: "e = nice_codec_names ! k"
    by (auto simp: in_set_conv_nth)
  from assms(1) obtain n where n: "name_entry e = Some n"
    using table_names_present by blast
  have scan: "snd (nice_name_loop L (id_entry e) 0) = Some n"
    using nice_name_loop_table [OF k assms(2)] e n by simp
  have plain: "id_entry e \<noteq> CODEC_ID_H264" "id_entry e \<noteq> CODEC_ID_DTS"
    using table_ids_plain [OF assms(1)] by simp_all
  have "get_codec_name L ctx = Inr n"
    using assms(3) scan plain by (simp add: get_codec_name_def Let_def)
  with n table_first_match [OF assms(1)] show ?thesis by simp
qed

text \<open>The AC-3 entry, resolved with the example collaborators.\<close>

lemma ex_ac3_identity: "codec_identity (ex_ctx\<lparr>codec_id := CODEC_ID_AC3\<rparr>) = Inr CODEC_ID_AC3"
  by (simp add: codec_identity_def ex_ctx_def)

theorem nice_name_of_table_entry_witness:
  "\<lparr>id_entry = CODEC_ID_AC3, name_entry = Some ''AC-3''\<rparr> \<in> set nice_codec_names
   \<and> 0 < sizeof_s_codec_names ex_libs
   \<and> codec_identity (ex_ctx\<lparr>codec_id := CODEC_ID_AC3\<rparr>) = Inr CODEC_ID_AC3
   \<and> get_codec_name ex_libs (ex_ctx\<lparr>codec_id := CODEC_ID_AC3\<rparr>) = Inr ''AC-3''
   \<and> find (\<lambda>t. id_entry t = CODEC_ID_AC3) nice_codec_names
       = Some \<lparr>id_entry = CODEC_ID_AC3, name_entry = Some ''AC-3''\<rparr>"
proof -
  have mem: "\<lparr>id_entry = CODEC_ID_AC3, name_entry = Some ''AC-3''\<rparr> \<in> set nice_codec_names"
    by (simp add: nice_codec_names_def)
  have sz: "0 < sizeof_s_codec_names ex_libs" by (simp add: ex_libs_def)
  show ?thesis
    using nice_name_of_table_entry [OF mem sz, of "ex_ctx\<lparr>codec_id := CODEC_ID_AC3\<rparr>"]
          mem sz ex_ac3_identity
    by simp
qed

section \<open>The H.264 rule: claim C4\<close>

text \<open>The length of the text that \<^verbatim>\<open>%.1f\<close> produces for a level.\<close>

lemma dec_nat_length_digit: "n < 10 \<Longrightarrow> length (dec_nat n) = 1"
  by (simp add: dec_nat.simps [of n])

lemma dec_nat_length_two: "n < 100 \<Longrightarrow> length (dec_nat n) \<le> 2"
  by (simp add: dec_nat.simps [of n] dec_nat_length_digit)

lemma dec_nat_length_long: "10 \<le> n \<Longrightarrow> 2 \<le> length (dec_nat n)"
  by (simp add: dec_nat.simps [of n] dec_nat.simps [of "n div 10"])

lemma format_1f_tenths_fits:
  assumes "- 100 < t" and "t < 1000"
  shows "length (format_1f_tenths t) \<le> 4"
proof (cases "t < 0")
  case True
  with assms have "nat \<bar>t\<bar> div 10 < 10" "nat \<bar>t\<bar> mod 10 < 10" by simp_all
  then show ?thesis
    using True by (simp add: format_1f_tenths_def dec_nat_length_digit)
next
  case False
  with assms have "nat \<bar>t\<bar> div 10 < 100" "nat \<bar>t\<bar> mod 10 < 10" by simp_all
  then show ?thesis
    using False dec_nat_length_two [of "nat \<bar>t\<bar> div 10"]
    by (simp add: format_1f_tenths_def dec_nat_length_digit)
qed

lemma format_1f_tenths_overflows:
  assumes "t \<le> - 100"
  shows "5 \<le> length (format_1f_tenths t)"
proof -
  from assms have "10 \<le> nat \<bar>t\<bar> div 10" by simp
  then have "2 \<le> length (dec_nat (nat \<bar>t\<bar> div 10))" by (rule dec_nat_length_long)
  moreover have "length (dec_nat (nat \<bar>t\<bar> mod 10)) = 1" by (simp add: dec_nat_length_digit)
  ultimately show ?thesis using assms by (simp add: format_1f_tenths_def)
qed

text \<open>
  For a level above \<open>- 100\<close> the text fits the five bytes of \<^verbatim>\<open>l_buf\<close> and the name is
  \<^verbatim>\<open>H.264\<close>, the profile, and the level suffix exactly when the level is non-zero, not
  \<^verbatim>\<open>FF_LEVEL_UNKNOWN\<close> and below 1000.
\<close>

lemma h264_name:
  assumes "codec_identity ctx = Inr CODEC_ID_H264"
    and "avcodec_find_decoder L CODEC_ID_H264 = Some c"
    and "av_get_profile_name L c (profile ctx) = Some pr"
    and "- 100 < level ctx"
  shows "get_codec_name L ctx =
           Inr (''H.264 '' @ pr
                @ (if level ctx \<noteq> 0 \<and> level ctx \<noteq> FF_LEVEL_UNKNOWN \<and> level ctx < 1000
                   then '' L'' @ format_1f_tenths (level ctx) else []))"
proof (cases "level ctx \<noteq> 0 \<and> level ctx \<noteq> FF_LEVEL_UNKNOWN \<and> level ctx < 1000")
  case True
  then have "length (format_1f_tenths (level ctx)) \<le> 4"
    using assms(4) by (simp add: format_1f_tenths_fits)
  then have "sprintf_s 5 (format_1f_tenths (level ctx)) = Inr (format_1f_tenths (level ctx))"
    by (simp add: sprintf_s_def)
  with True assms(1-3) show ?thesis
    by (simp add: get_codec_name_def Let_def)
next
  case False
  with assms(1-3) show ?thesis
    by (auto simp: get_codec_name_def Let_def)
qed

text \<open>
  A level of \<open>- 100\<close> or less passes the three tests of line 126, and its text has at
  least five characters, which with the terminator do not fit \<^verbatim>\<open>l_buf\<close>.
\<close>

lemma h264_level_overflow:
  assumes "codec_identity ctx = Inr CODEC_ID_H264"
    and "avcodec_find_decoder L CODEC_ID_H264 = Some c"
    and "av_get_profile_name L c (profile ctx) = Some pr"
    and "level ctx \<le> - 100"
  shows "get_codec_name L ctx = Inl InvalidParameter"
proof -
  have "5 \<le> length (format_1f_tenths (level ctx))"
    using assms(4) by (rule format_1f_tenths_overflows)
  then have "sprintf_s 5 (format_1f_tenths (level ctx)) = Inl InvalidParameter"
    by (simp add: sprintf_s_def)
  with assms show ?thesis
    by (simp add: get_codec_name_def Let_def FF_LEVEL_UNKNOWN_def)
qed

text \<open>The examples of the claim: profile High with level 41 and with level 0.\<close>

lemma ex_h264_identity: "codec_identity (ex_h264 lv) = Inr CODEC_ID_H264"
  by (simp add: codec_identity_def ex_h264_def ex_ctx_def)

lemma ex_h264_decoder: "avcodec_find_decoder ex_libs CODEC_ID_H264 = Some \<lparr>name = ''h264''\<rparr>"
  by (simp add: ex_libs_def)

lemma ex_h264_profile:
  "av_get_profile_name ex_libs \<lparr>name = ''h264''\<rparr> (profile (ex_h264 lv)) = Some ''High''"
  by (simp add: ex_libs_def ex_h264_def ex_ctx_def)

lemma format_1f_tenths_41: "format_1f_tenths 41 = ''4.1''"
  by (simp add: format_1f_tenths_def dec_nat.simps digit_char_def)

lemma format_1f_tenths_m100: "format_1f_tenths (- 100) = ''-10.0''"
  by (simp add: format_1f_tenths_def dec_nat.simps digit_char_def)

lemma h264_high_41: "get_codec_name ex_libs (ex_h264 41) = Inr ''H.264 High L4.1''"
  using h264_name [OF ex_h264_identity ex_h264_decoder ex_h264_profile, of 41]
  by (simp add: ex_h264_def ex_ctx_def FF_LEVEL_UNKNOWN_def format_1f_tenths_41)

lemma h264_high_0: "get_codec_name ex_libs (ex_h264 0) = Inr ''H.264 High''"
  using h264_name [OF ex_h264_identity ex_h264_decoder ex_h264_profile, of 0]
  by (simp add: ex_h264_def ex_ctx_def)

text \<open>
  Claim C4 says that for the H.264 identity with a profile name the resolver emits
  \<^verbatim>\<open>H.264\<close> and the profile, followed by \<^verbatim>\<open>L\<close> and the level divided by ten with one
  decimal exactly when the level is non-zero, not the unknown-level value, and below
  1000. The level \<open>- 100\<close> meets the three conditions, and there the code does not emit
  the name: \<^verbatim>\<open>sprintf_s\<close> cannot store \<^verbatim>\<open>-10.0\<close> and its terminator in the five bytes
  of \<^verbatim>\<open>l_buf\<close> and invokes the invalid-parameter handler.
\<close>

theorem h264_level_text_overflows_buffer:
  "codec_identity (ex_h264 (- 100)) = Inr CODEC_ID_H264
   \<and> av_get_profile_name ex_libs \<lparr>name = ''h264''\<rparr> (profile (ex_h264 (- 100))) = Some ''High''
   \<and> level (ex_h264 (- 100)) = - 100
   \<and> format_1f_tenths (- 100) = ''-10.0''
   \<and> get_codec_name ex_libs (ex_h264 (- 100)) = Inl InvalidParameter"
proof -
  have "level (ex_h264 (- 100)) = - 100" by (simp add: ex_h264_def)
  moreover from this have "get_codec_name ex_libs (ex_h264 (- 100)) = Inl InvalidParameter"
    using h264_level_overflow [OF ex_h264_identity ex_h264_decoder ex_h264_profile, of "- 100"]
    by simp
  ultimately show ?thesis
    using ex_h264_identity ex_h264_profile format_1f_tenths_m100 by simp
qed

section \<open>The codec tag rule: claim C10\<close>

text \<open>The number of digits that \<^verbatim>\<open>%04X\<close> writes, and which digits.\<close>

lemma hex_nat_nonempty: "0 < length (hex_nat n)"
  by (simp add: hex_nat.simps [of n])

lemma hex_nat_length_le: "n < 16 ^ Suc k \<Longrightarrow> length (hex_nat n) \<le> Suc k"
proof (induction k arbitrary: n)
  case 0
  then show ?case by (simp add: hex_nat.simps [of n])
next
  case (Suc k)
  have "n div 16 < 16 ^ Suc k"
    using Suc.prems by (simp add: less_mult_imp_div_less mult.commute)
  then have "length (hex_nat (n div 16)) \<le> Suc k" by (rule Suc.IH)
  then show ?case by (simp add: hex_nat.simps [of n])
qed

lemma hex_nat_length_gt: "16 ^ k \<le> n \<Longrightarrow> k < length (hex_nat n)"
proof (induction k arbitrary: n)
  case 0
  show ?case by (rule hex_nat_nonempty)
next
  case (Suc k)
  have "(16::nat) \<le> 16 ^ Suc k" by (rule self_le_power) simp_all
  with Suc.prems have big: "16 \<le> n" by linarith
  have "16 ^ k \<le> n div 16"
    using Suc.prems by (simp add: less_eq_div_iff_mult_less_eq mult.commute)
  then have "k < length (hex_nat (n div 16))" by (rule Suc.IH)
  with big show ?case by (simp add: hex_nat.simps [of n])
qed

lemma digit_char_hex: "d < 16 \<Longrightarrow> digit_char d \<in> set ''0123456789ABCDEF''"
  unfolding digit_char_def by (rule nth_mem) simp

lemma hex_nat_digits: "set (hex_nat n) \<subseteq> set ''0123456789ABCDEF''"
proof (induction n rule: hex_nat.induct)
  case (1 n)
  show ?case
  proof (cases "n < 16")
    case True
    then show ?thesis
      using digit_char_hex [of n] by (simp add: hex_nat.simps [of n])
  next
    case False
    then have "set (hex_nat (n div 16)) \<subseteq> set ''0123456789ABCDEF''" by (rule 1)
    moreover have "digit_char (n mod 16) \<in> set ''0123456789ABCDEF''"
      by (rule digit_char_hex) simp
    ultimately show ?thesis
      using False by (simp add: hex_nat.simps [of n])
  qed
qed

lemma format_04X_length_ge: "4 \<le> length (format_04X w)"
  by (simp add: format_04X_def Let_def)

lemma format_04X_length_le: "length (format_04X w) \<le> 8"
proof -
  have "unat w < 16 ^ Suc 7" using unsigned_less [of w] by simp
  then have "length (hex_nat (unat w)) \<le> Suc 7" by (rule hex_nat_length_le)
  then show ?thesis by (simp add: format_04X_def Let_def)
qed

lemma format_04X_length_4: "length (format_04X w) = 4 \<longleftrightarrow> w < 0x10000"
proof (cases "w < 0x10000")
  case True
  then have "unat w < 16 ^ Suc 3" by (simp add: word_less_nat_alt)
  then have "length (hex_nat (unat w)) \<le> Suc 3" by (rule hex_nat_length_le)
  with True show ?thesis by (simp add: format_04X_def Let_def)
next
  case False
  then have "16 ^ 4 \<le> unat w" by (simp add: word_less_nat_alt)
  then have "4 < length (hex_nat (unat w))" by (rule hex_nat_length_gt)
  with False show ?thesis by (simp add: format_04X_def Let_def)
qed

lemma format_04X_digits: "set (format_04X w) \<subseteq> set ''0123456789ABCDEF''"
proof -
  have "set (replicate (4 - length (hex_nat (unat w))) CHR ''0'') \<subseteq> set ''0123456789ABCDEF''"
    by auto
  with hex_nat_digits [of "unat w"] show ?thesis
    by (simp add: format_04X_def Let_def)
qed

text \<open>
  Claim C10, as amended. When no earlier rule of \<^verbatim>\<open>get_codec_name\<close> applies (the
  decoder lookup finds nothing, so that there is neither a profile nor a decoder name,
  the scan for a nice name ends with \<^verbatim>\<open>NULL\<close>, and the embedded codec name is
  empty), the resolver emits the tag string of the codec tag, then \<^verbatim>\<open> / 0x\<close>, then
  the tag in upper-case hexadecimal digits padded with zeros to at least four digits;
  there are exactly four digits only for a tag below \<^verbatim>\<open>0x10000\<close>.
\<close>

theorem avi_tag_name:
  assumes "codec_identity ctx = Inr cid"
    and "avcodec_find_decoder L cid = None"
    and "snd (nice_name_loop L cid 0) = None"
    and "codec_name ctx = []"
  shows "get_codec_name L ctx =
           Inr (av_get_codec_tag_string L (codec_tag ctx) @ '' / 0x'' @ format_04X (codec_tag ctx))
         \<and> 4 \<le> length (format_04X (codec_tag ctx))
         \<and> (length (format_04X (codec_tag ctx)) = 4 \<longleftrightarrow> codec_tag ctx < 0x10000)
         \<and> set (format_04X (codec_tag ctx)) \<subseteq> set ''0123456789ABCDEF''"
proof -
  have "length (''0x'' @ format_04X (codec_tag ctx)) + 1 \<le> 32"
    using format_04X_length_le [of "codec_tag ctx"] by simp
  then have "sprintf_s 32 (''0x'' @ format_04X (codec_tag ctx)) = Inr (''0x'' @ format_04X (codec_tag ctx))"
    unfolding sprintf_s_def by (rule if_P)
  with assms have "get_codec_name L ctx =
           Inr (av_get_codec_tag_string L (codec_tag ctx) @ '' / 0x'' @ format_04X (codec_tag ctx))"
    by (simp add: get_codec_name_def Let_def)
  then show ?thesis
    using format_04X_length_ge format_04X_length_4 format_04X_digits by blast
qed

text \<open>
  The FourCC \<^verbatim>\<open>H264\<close>. The identity of the example is 0, which the zeroed memory after
  the table matches at index 13 with a \<^verbatim>\<open>NULL\<close> name.
\<close>

lemma format_04X_h264_tag: "format_04X 0x34363248 = ''34363248''"
  by (simp add: format_04X_def Let_def hex_nat.simps digit_char_def)

lemma ex_tagged_identity: "codec_identity ex_tagged = Inr (CODEC_ID_OTHER 0)"
  by (simp add: codec_identity_def ex_tagged_def ex_ctx_def)

lemma ex_tagged_scan: "snd (nice_name_loop ex_libs (CODEC_ID_OTHER 0) 0) = None"
proof -
  have len: "length nice_codec_names = 13" by (simp add: nice_codec_names_def)
  have notin: "CODEC_ID_OTHER 0 \<notin> id_entry ` set nice_codec_names"
    by (simp add: nice_codec_names_def)
  have before: "id_entry (nice_codec_names_at ex_libs j) \<noteq> CODEC_ID_OTHER 0" if "j < 13" for j
  proof -
    from that len have "id_entry (nice_codec_names ! j) \<in> id_entry ` set nice_codec_names"
      by (intro table_entry_id) simp
    with notin have "id_entry (nice_codec_names ! j) \<noteq> CODEC_ID_OTHER 0" by metis
    with that len show ?thesis by (simp add: nice_codec_names_at_def)
  qed
  have at: "nice_codec_names_at ex_libs 13 = \<lparr>id_entry = CODEC_ID_OTHER 0, name_entry = None\<rparr>"
    by (simp add: nice_codec_names_at_def len ex_libs_def)
  have "13 < sizeof_nice_codec_names ex_libs"
    by (simp add: sizeof_nice_codec_names_def len ex_libs_def)
  then have "nice_name_loop ex_libs (CODEC_ID_OTHER 0) 0 = ([0..<Suc 13], name_entry (nice_codec_names_at ex_libs 13))"
    using before at by (intro nice_name_loop_found) simp_all
  with at show ?thesis by simp
qed

lemma ex_tagged_facts:
  "avcodec_find_decoder ex_libs (CODEC_ID_OTHER 0) = None \<and> codec_name ex_tagged = []
   \<and> codec_tag ex_tagged = 0x34363248
   \<and> av_get_codec_tag_string ex_libs 0x34363248 = ''H264''"
  by (simp add: ex_libs_def ex_tagged_def ex_ctx_def)

theorem avi_tag_name_witness:
  "codec_identity ex_tagged = Inr (CODEC_ID_OTHER 0)
   \<and> avcodec_find_decoder ex_libs (CODEC_ID_OTHER 0) = None
   \<and> snd (nice_name_loop ex_libs (CODEC_ID_OTHER 0) 0) = None
   \<and> codec_name ex_tagged = []
   \<and> get_codec_name ex_libs ex_tagged = Inr ''H264 / 0x34363248''
   \<and> 4 \<le> length (format_04X (codec_tag ex_tagged))
   \<and> \<not> codec_tag ex_tagged < 0x10000"
proof -
  have facts: "avcodec_find_decoder ex_libs (CODEC_ID_OTHER 0) = None" "codec_name ex_tagged = []"
    "codec_tag ex_tagged = 0x34363248" "av_get_codec_tag_string ex_libs 0x34363248 = ''H264''"
    using ex_tagged_facts by simp_all
  show ?thesis
    using avi_tag_name [OF ex_tagged_identity facts(1) ex_tagged_scan facts(2), of]
          ex_tagged_identity ex_tagged_scan facts format_04X_h264_tag
    by simp
qed

text \<open>
  Claim C10 as stated says that the tag is rendered as 4 hexadecimal digits. For the
  tag \<^verbatim>\<open>0x34363248\<close> the code writes eight.
\<close>

theorem avi_tag_eight_hex_digits:
  "codec_tag ex_tagged = 0x34363248
   \<and> get_codec_name ex_libs ex_tagged = Inr (''H264'' @ '' / 0x'' @ ''34363248'')
   \<and> length ''34363248'' = 8"
proof -
  have "sprintf_s 32 ''0x34363248'' = Inr ''0x34363248''" by (simp add: sprintf_s_def)
  then have "get_codec_name ex_libs ex_tagged = Inr ''H264 / 0x34363248''"
    using ex_tagged_identity ex_tagged_scan ex_tagged_facts format_04X_h264_tag
    by (simp add: get_codec_name_def Let_def)
  then show ?thesis using ex_tagged_facts by simp
qed

section \<open>Language selection: claim C8\<close>

text \<open>
  When a language value is found, in the metadata or else in the stream, the result
  depends on its first three characters only: \<^verbatim>\<open>strncmp\<close> compares no more.
\<close>

lemma get_stream_language_found:
  assumes "metadata s ''language'' = Some v
           \<or> (metadata s ''language'' = None \<and> language s = Some v \<and> v \<noteq> [])"
  shows "get_stream_language s = (if take 3 v = ''und'' then Inr None else Inr (Some v))"
  using assms strncmp_zero_iff [of v "''und''" 3]
  by (auto simp: get_stream_language_def)


text \<open>The description of the example video stream, with and without a language.\<close>

lemma describe_info_ex_stream_lang:
  assumes "get_codec_name L (ex_h264 41) = Inr n"
    and "take 3 l \<noteq> ''und''"
  shows "describe_info L (ex_stream_lang l) = Inr (''V: '' @ display_language L (Some l) @ '' ('' @ n @ '')'')"
proof -
  have lang: "get_stream_language (ex_stream_lang l) = Inr (Some l)"
    using get_stream_language_found [of "ex_stream_lang l" l] assms(2)
    by (simp add: ex_stream_lang_def)
  have br: "get_bit_rate L (ex_h264 41) = 0"
    by (simp add: get_bit_rate_def ex_h264_def ex_ctx_def)
  show ?thesis
    using assms(1) lang br
    by (simp add: describe_info_def Let_def ex_stream_lang_def ex_stream_def title_lang_open_def
        title_lang_close_def bitrate_text_def PIX_FMT_NONE_def ex_h264_def ex_ctx_def)
qed





section \<open>The output buffer: claim C1\<close>

text \<open>Every template starts with its type tag, so the text is never empty.\<close>

lemma describe_info_nonempty:
  assumes "describe_info L st = Inr info"
  shows "info \<noteq> []"
proof (cases "codec_type (codec st)")
  case AVMEDIA_TYPE_VIDEO
  with assms show ?thesis
    by (auto simp: describe_info_def Let_def split: sum.splits if_splits option.splits)
next
  case AVMEDIA_TYPE_AUDIO
  with assms show ?thesis
    by (auto simp: describe_info_def Let_def split: sum.splits)
next
  case AVMEDIA_TYPE_SUBTITLE
  with assms show ?thesis
    by (auto simp: describe_info_def Let_def split: sum.splits)
next
  case AVMEDIA_TYPE_UNKNOWN
  with assms show ?thesis
    by (auto simp: describe_info_def Let_def split: sum.splits)
next
  case AVMEDIA_TYPE_DATA
  with assms show ?thesis
    by (auto simp: describe_info_def Let_def split: sum.splits)
next
  case AVMEDIA_TYPE_ATTACHMENT
  with assms show ?thesis
    by (auto simp: describe_info_def Let_def split: sum.splits)
next
  case AVMEDIA_TYPE_NB
  with assms show ?thesis
    by (auto simp: describe_info_def Let_def split: sum.splits)
qed

text \<open>
  Claim C1, as amended. With a stream and an output pointer that are not \<^verbatim>\<open>NULL\<close>,
  and a description that is built without a fault, \<^verbatim>\<open>lavf_describe_stream\<close> returns
  \<^verbatim>\<open>S_OK\<close> whether the allocation succeeds or not: it stores the buffer with the wide
  form of the description, which is never empty, when the allocation succeeds, and
  stores \<^verbatim>\<open>NULL\<close> when it fails. A fault while the text is built is a fault of the
  call, and a \<^verbatim>\<open>NULL\<close> argument gives \<^verbatim>\<open>E_POINTER\<close> with the output untouched.
\<close>

theorem describe_stream_allocation:
  "(describe_info L st = Inr info \<longrightarrow>
      info \<noteq> []
      \<and> lavf_describe_stream L (Some st) True =
          Inr (S_OK,
               Stored (if CoTaskMemAlloc L ((length info + 1) * 2)
                       then Some (snd (MultiByteToWideChar L 0 info (length info + 1)))
                       else None)))
   \<and> (describe_info L st = Inl f \<longrightarrow> lavf_describe_stream L (Some st) True = Inl f)
   \<and> lavf_describe_stream L None p = Inr (E_POINTER, Untouched)
   \<and> lavf_describe_stream L (Some st) False = Inr (E_POINTER, Untouched)"
  using describe_info_nonempty [of L st info]
  by (simp add: lavf_describe_stream_def Let_def)

text \<open>The example stream tagged \<^verbatim>\<open>fre\<close>, with both allocators.\<close>

lemma ex_h264_41_no_memory: "get_codec_name ex_libs_no_memory (ex_h264 41) = Inr ''H.264 High L4.1''"
proof -
  have "avcodec_find_decoder ex_libs_no_memory CODEC_ID_H264 = Some \<lparr>name = ''h264''\<rparr>"
    and "av_get_profile_name ex_libs_no_memory \<lparr>name = ''h264''\<rparr> (profile (ex_h264 41)) = Some ''High''"
    by (simp_all add: ex_libs_no_memory_def ex_libs_def ex_h264_def ex_ctx_def)
  from h264_name [OF ex_h264_identity this] show ?thesis
    by (simp add: ex_h264_def ex_ctx_def FF_LEVEL_UNKNOWN_def format_1f_tenths_41)
qed

lemma describe_info_ex_fre:
  "describe_info ex_libs (ex_stream_lang ''fre'') = Inr ''V: fre (H.264 High L4.1)''"
  using describe_info_ex_stream_lang [OF h264_high_41, of "''fre''"]
  by (simp add: display_language_def ex_libs_def)

lemma describe_info_ex_fre_no_memory:
  "describe_info ex_libs_no_memory (ex_stream_lang ''fre'') = Inr ''V: fre (H.264 High L4.1)''"
  using describe_info_ex_stream_lang [OF ex_h264_41_no_memory, of "''fre''"]
  by (simp add: display_language_def ex_libs_no_memory_def ex_libs_def)

theorem describe_stream_allocation_witness:
  "describe_info ex_libs (ex_stream_lang ''fre'') = Inr ''V: fre (H.264 High L4.1)''
   \<and> lavf_describe_stream ex_libs (Some (ex_stream_lang ''fre'')) True =
       Inr (S_OK, Stored (Some (map (\<lambda>c. of_nat (of_char c)) ''V: fre (H.264 High L4.1)'')))
   \<and> describe_info ex_libs ex_stream = Inl NullPointerRead
   \<and> lavf_describe_stream ex_libs (Some ex_stream) True = Inl NullPointerRead"
proof -
  have nolang: "describe_info ex_libs ex_stream = Inl NullPointerRead"
    using h264_high_41 get_stream_language_absent [of ex_stream]
    by (simp add: describe_info_def ex_stream_def)
  show ?thesis
    using describe_stream_allocation [of ex_libs "ex_stream_lang ''fre''" "''V: fre (H.264 High L4.1)''" NullPointerRead True]
          describe_stream_allocation [of ex_libs ex_stream "''V''" NullPointerRead True]
          describe_info_ex_fre nolang
    by (simp add: ex_libs_def)
qed

text \<open>
  Claim C1 as stated says that a failed allocation of the output buffer is reported to
  the caller as an error result, and that on success the output is never \<^verbatim>\<open>NULL\<close>.
  With an allocator that fails the call returns \<^verbatim>\<open>S_OK\<close> and a \<^verbatim>\<open>NULL\<close> output.
\<close>

theorem describe_stream_unreported_allocation_failure:
  "CoTaskMemAlloc ex_libs_no_memory ((length ''V: fre (H.264 High L4.1)'' + 1) * 2) = False
   \<and> lavf_describe_stream ex_libs_no_memory (Some (ex_stream_lang ''fre'')) True = Inr (S_OK, Stored None)"
  using describe_info_ex_fre_no_memory
  by (simp add: lavf_describe_stream_def Let_def ex_libs_no_memory_def)

section \<open>The ufile protocol: claims C5 and C6\<close>

text \<open>
  Claim C5. When \<^verbatim>\<open>whence\<close> is \<^verbatim>\<open>AVSEEK_SIZE\<close>, \<^verbatim>\<open>ufile_seek\<close> on an open handle returns
  the size of the file in bytes and leaves the state of the host as it was, so that a
  read that follows returns what it would have returned before; when the status query
  fails the result is \<^verbatim>\<open>AVERROR(errno)\<close>; in both cases the table of open files, with
  the position of each, is unchanged. For every other \<^verbatim>\<open>whence\<close> the call is the host's
  64-bit seek, whose result (the new offset, or \<open>- 1\<close>) it returns.
\<close>

theorem ufile_seek_report_size:
  "(whence = AVSEEK_SIZE \<and> open_files x (priv_data h) = Some f \<longrightarrow>
      ufile_seek x h pos whence = (x, int (length (contents f)))
      \<and> ufile_read (fst (ufile_seek x h pos whence)) h n = ufile_read x h n)
   \<and> (whence = AVSEEK_SIZE \<and> open_files x (priv_data h) = None \<longrightarrow>
      ufile_seek x h pos whence = (x\<lparr>errno := EBADF\<rparr>, AVERROR EBADF))
   \<and> (whence = AVSEEK_SIZE \<longrightarrow>
      open_files (fst (ufile_seek x h pos whence)) = open_files x
      \<and> (snd (ufile_seek x h pos whence) < 0 \<longrightarrow>
           snd (ufile_seek x h pos whence) = AVERROR (errno (fst (ufile_seek x h pos whence)))))
   \<and> (whence \<noteq> AVSEEK_SIZE \<longrightarrow>
      ufile_seek x h pos whence = lseeki64 x (priv_data h) pos whence)"
  by (cases "open_files x (priv_data h)")
     (simp_all add: ufile_seek_def ufile_read_def fstat64_def Let_def AVERROR_def EBADF_def)

text \<open>
  A file of five bytes read up to position 2: the size query returns 5 and the next
  read of two bytes returns bytes 2 and 3; the query on a descriptor that is not open
  returns \<^verbatim>\<open>AVERROR(EBADF)\<close>; a seek to offset 4 moves the position.
\<close>

theorem ufile_seek_report_size_witness:
  "open_files ex_host (priv_data ex_handle) = Some \<lparr>contents = [10, 20, 30, 40, 50], file_pos = 2\<rparr>
   \<and> ufile_seek ex_host ex_handle 0 AVSEEK_SIZE = (ex_host, 5)
   \<and> snd (ufile_read (fst (ufile_seek ex_host ex_handle 0 AVSEEK_SIZE)) ex_handle 2) = (2, [30, 40])
   \<and> open_files ex_host (priv_data \<lparr>priv_data = 4\<rparr>) = None
   \<and> ufile_seek ex_host \<lparr>priv_data = 4\<rparr> 0 AVSEEK_SIZE = (ex_host\<lparr>errno := EBADF\<rparr>, - 9)
   \<and> SEEK_SET \<noteq> AVSEEK_SIZE
   \<and> snd (ufile_seek ex_host ex_handle 4 SEEK_SET) = 4
   \<and> snd (ufile_read (fst (ufile_seek ex_host ex_handle 4 SEEK_SET)) ex_handle 2) = (1, [50])"
  using ufile_seek_report_size [of AVSEEK_SIZE ex_host ex_handle
          "\<lparr>contents = [10, 20, 30, 40, 50], file_pos = 2\<rparr>" 0 2]
        ufile_seek_report_size [of AVSEEK_SIZE ex_host "\<lparr>priv_data = 4\<rparr>"
          "\<lparr>contents = [10, 20, 30, 40, 50], file_pos = 2\<rparr>" 0 2]
        ufile_seek_report_size [of SEEK_SET ex_host ex_handle
          "\<lparr>contents = [10, 20, 30, 40, 50], file_pos = 2\<rparr>" 4 2]
  by (simp add: ex_host_def ex_handle_def ufile_read_def read_crt_def lseeki64_def Let_def
      AVSEEK_SIZE_def SEEK_SET_def AVERROR_def EBADF_def)

text \<open>
  Claim C6. \<^verbatim>\<open>ufile_open\<close> strips the scheme and converts the path to wide characters;
  when the conversion fails it returns \<^verbatim>\<open>AVERROR(ENOENT)\<close>. Otherwise it calls the host
  with an access mode of create, truncate and read-write when the flags have a bit of
  \<^verbatim>\<open>URL_RDWR\<close>, of create, truncate and write-only when they have a bit of
  \<^verbatim>\<open>URL_WRONLY\<close> instead, and of read-only otherwise, each with the binary flag where
  the host defines it; when the host call fails, the result is \<^verbatim>\<open>AVERROR(errno)\<close>, and
  when it succeeds the descriptor is stored in the handle and the result is 0.
\<close>

theorem ufile_open_results:
  "(fst (MultiByteToWideChar L MB_ERR_INVALID_CHARS (av_strstart filename ''ufile:'') 4096) \<le> 0 \<longrightarrow>
      ufile_open L x h filename flags = (x, h, AVERROR ENOENT))
   \<and> (0 < fst (MultiByteToWideChar L MB_ERR_INVALID_CHARS (av_strstart filename ''ufile:'') 4096) \<longrightarrow>
      ufile_open L x h filename flags =
        (let r = wsopen_s L x (snd (MultiByteToWideChar L MB_ERR_INVALID_CHARS (av_strstart filename ''ufile:'') 4096))
                   (ufile_access L flags) SH_DENYNO (S_IREAD OR S_IWRITE)
         in if snd r = - 1 then (fst r, h, AVERROR (errno (fst r)))
            else (fst r, h\<lparr>priv_data := snd r\<rparr>, 0)))
   \<and> (flags AND URL_RDWR L \<noteq> 0 \<longrightarrow>
      ufile_access L flags =
        (case O_BINARY L of Some b \<Rightarrow> (O_CREAT OR O_TRUNC OR O_RDWR) OR b
                          | None \<Rightarrow> O_CREAT OR O_TRUNC OR O_RDWR))
   \<and> (flags AND URL_RDWR L = 0 \<and> flags AND URL_WRONLY L \<noteq> 0 \<longrightarrow>
      ufile_access L flags =
        (case O_BINARY L of Some b \<Rightarrow> (O_CREAT OR O_TRUNC OR O_WRONLY) OR b
                          | None \<Rightarrow> O_CREAT OR O_TRUNC OR O_WRONLY))
   \<and> (flags AND URL_RDWR L = 0 \<and> flags AND URL_WRONLY L = 0 \<longrightarrow>
      ufile_access L flags = (case O_BINARY L of Some b \<Rightarrow> O_RDONLY OR b | None \<Rightarrow> O_RDONLY))"
  by (simp add: ufile_open_def ufile_access_def Let_def split_beta)


text \<open>
  The example host: a path that is not valid UTF-8, a file that exists and one that
  does not, and the three access modes.
\<close>

lemma ex_convert_ascii:
  "MultiByteToWideChar ex_libs MB_ERR_INVALID_CHARS (av_strstart ''ufile:a.mkv'' ''ufile:'') 4096
     = (6, map (\<lambda>c. of_nat (of_char c)) ''a.mkv'')
   \<and> MultiByteToWideChar ex_libs MB_ERR_INVALID_CHARS (av_strstart ''ufile:b.mkv'' ''ufile:'') 4096
     = (6, map (\<lambda>c. of_nat (of_char c)) ''b.mkv'')
   \<and> MultiByteToWideChar ex_libs MB_ERR_INVALID_CHARS (av_strstart [CHR ''u'', CHR ''f'', CHR ''i'', CHR ''l'', CHR ''e'', CHR '':'', CHR 0xE9] ''ufile:'') 4096
     = (0, [])"
  by (simp add: ex_libs_def MB_ERR_INVALID_CHARS_def av_strstart_def)

theorem ufile_open_results_witness:
  "ufile_open ex_libs ex_host ex_handle [CHR ''u'', CHR ''f'', CHR ''i'', CHR ''l'', CHR ''e'', CHR '':'', CHR 0xE9] 0
     = (ex_host, ex_handle, - 2)
   \<and> ufile_open ex_libs ex_host ex_handle ''ufile:a.mkv'' 0
     = (ex_host\<lparr>open_files := (open_files ex_host)(3 \<mapsto> \<lparr>contents = [1, 2, 3, 4, 5], file_pos = 0\<rparr>)\<rparr>,
        ex_handle\<lparr>priv_data := 3\<rparr>, 0)
   \<and> ufile_open ex_libs ex_host ex_handle ''ufile:b.mkv'' 0
     = (ex_host\<lparr>errno := ENOENT\<rparr>, ex_handle, AVERROR ENOENT)
   \<and> ufile_access ex_libs 2 = 0x8302
   \<and> ufile_access ex_libs 1 = 0x8301
   \<and> ufile_access ex_libs 0 = 0x8000"
proof -
  have flags: "(2 :: 32 word) AND URL_RDWR ex_libs \<noteq> 0"
    "(1 :: 32 word) AND URL_RDWR ex_libs = 0" "(1 :: 32 word) AND URL_WRONLY ex_libs \<noteq> 0"
    "(0 :: 32 word) AND URL_RDWR ex_libs = 0" "(0 :: 32 word) AND URL_WRONLY ex_libs = 0"
    "O_BINARY ex_libs = Some 0x8000"
    by (simp_all add: ex_libs_def)
  have opens:
    "wsopen_s ex_libs ex_host (map (\<lambda>c. of_nat (of_char c)) ''a.mkv'') (ufile_access ex_libs 0) SH_DENYNO (S_IREAD OR S_IWRITE)
       = (ex_host\<lparr>open_files := (open_files ex_host)(3 \<mapsto> \<lparr>contents = [1, 2, 3, 4, 5], file_pos = 0\<rparr>)\<rparr>, 3)"
    "wsopen_s ex_libs ex_host (map (\<lambda>c. of_nat (of_char c)) ''b.mkv'') (ufile_access ex_libs 0) SH_DENYNO (S_IREAD OR S_IWRITE)
       = (ex_host\<lparr>errno := ENOENT\<rparr>, - 1)"
    by (simp_all add: ex_libs_def)
  show ?thesis
    using ufile_open_results [of ex_libs "[CHR ''u'', CHR ''f'', CHR ''i'', CHR ''l'', CHR ''e'', CHR '':'', CHR 0xE9]" ex_host ex_handle 0]
          ufile_open_results [of ex_libs "''ufile:a.mkv''" ex_host ex_handle 0]
          ufile_open_results [of ex_libs "''ufile:b.mkv''" ex_host ex_handle 0]
          ufile_open_results [of ex_libs "''ufile:a.mkv''" ex_host ex_handle 2]
          ufile_open_results [of ex_libs "''ufile:a.mkv''" ex_host ex_handle 1]
          ex_convert_ascii flags opens
    by (simp add: AVERROR_def ENOENT_def O_CREAT_def O_TRUNC_def O_RDWR_def O_WRONLY_def O_RDONLY_def)
qed

end
